theory Spec2Isabelle
  imports Complex_Main
begin

section \<open>Data model\<close>

text \<open>
  The controller hands campaign objects to the web UI. The UI reads them only through
  \<^verbatim>\<open>hasattr\<close>/\<^verbatim>\<open>getattr\<close>, so every attribute is optional here: \<open>None\<close> is an
  attribute the object does not have.
\<close>

record game =
  game_name :: "string option"

record drop =
  current_minutes :: "int option"
  required_minutes :: "int option"

record campaign =
  name :: "string option"
  game :: "game option"
  active :: "bool option"
  upcoming :: "bool option"
  expired :: "bool option"
  eligible :: "bool option"
  drops :: "drop list option"

text \<open>
  The dictionary \<^verbatim>\<open>campaign_data\<close> stored per campaign. Its keys are read with
  \<^verbatim>\<open>dict.get(key, default)\<close>, so each may be missing. \<open>campaign_obj\<close> is the live
  object behind the entry, \<open>None\<close> for a synthetic entry.
\<close>

record campaign_data =
  cd_name :: "string option"
  cd_game :: "string option"
  cd_status :: "string option"
  cd_progress :: "real option"
  cd_time_remaining :: "string option"
  campaign_obj :: "campaign option"

type_synonym filters = "string \<rightharpoonup> bool"

datatype py_error = KeyError | AttributeError | TypeError

section \<open>Strings\<close>

text \<open>
  \<^verbatim>\<open>str.lower()\<close> on the letters A to Z; every other character is kept. The statuses are
  only compared with lower-case ASCII words, which no other character lowers into.
\<close>

definition lower_char :: "char \<Rightarrow> char" where
  "lower_char c =
     (case map_of (zip ''ABCDEFGHIJKLMNOPQRSTUVWXYZ'' ''abcdefghijklmnopqrstuvwxyz'') c of
        Some l \<Rightarrow> l
      | None \<Rightarrow> c)"

definition lower :: "string \<Rightarrow> string" where
  "lower s = map lower_char s"

section \<open>Derived status (webui/utils.py, webui/mock_classes.py)\<close>

definition get_campaign_status :: "campaign \<Rightarrow> string" where
  "get_campaign_status c =
     (if active c = Some True then ''Active''
      else if upcoming c = Some True then ''Upcoming''
      else if expired c = Some True then ''Expired''
      else ''Unknown'')"

text \<open>\<^verbatim>\<open>MockInventory._get_campaign_status\<close>, used by \<^verbatim>\<open>add_campaign\<close>.\<close>

definition MockInventory_get_campaign_status :: "campaign \<Rightarrow> string" where
  "MockInventory_get_campaign_status c =
     (if active c = Some True then ''Active''
      else if upcoming c = Some True then ''Upcoming''
      else if expired c = Some True then ''Expired''
      else ''Unknown'')"

text \<open>
  \<^verbatim>\<open>WebUIManager._get_campaign_status\<close> of webui.py reads the attributes unguarded and
  has no \<open>Unknown\<close>.
\<close>

definition WebUIManager_get_campaign_status :: "campaign \<Rightarrow> py_error + string" where
  "WebUIManager_get_campaign_status c =
     (case active c of
        None \<Rightarrow> Inl AttributeError
      | Some a \<Rightarrow>
          if a then Inr ''Active''
          else (case upcoming c of
                  None \<Rightarrow> Inl AttributeError
                | Some u \<Rightarrow> if u then Inr ''Upcoming'' else Inr ''Expired''))"

section \<open>Filter engine\<close>

text \<open>\<^verbatim>\<open>filters.get(key, False)\<close>\<close>

definition filters_get :: "filters \<Rightarrow> string \<Rightarrow> bool" where
  "filters_get f k = (case f k of Some b \<Rightarrow> b | None \<Rightarrow> False)"

text \<open>\<^verbatim>\<open>campaign_data.get('status', '').lower()\<close>\<close>

definition status_of :: "campaign_data \<Rightarrow> string" where
  "status_of cd = lower (case cd_status cd of Some s \<Rightarrow> s | None \<Rightarrow> [])"

text \<open>\<^verbatim>\<open>should_show_campaign_with_filters\<close> of webui/utils.py.\<close>

definition should_show_campaign_with_filters :: "campaign_data \<Rightarrow> filters \<Rightarrow> bool" where
  "should_show_campaign_with_filters cd f =
     (let show_not_linked = filters_get f ''not_linked'';
          show_upcoming = filters_get f ''upcoming'';
          show_active = filters_get f ''active'';
          show_expired = filters_get f ''expired'';
          show_excluded = filters_get f ''excluded'';
          show_finished = filters_get f ''finished'';
          status = status_of cd
      in case campaign_obj cd of
           None \<Rightarrow>
             (let any_filter_enabled =
                    (show_not_linked \<or> show_upcoming \<or> show_active \<or> show_expired \<or>
                     show_excluded \<or> show_finished)
              in if \<not> any_filter_enabled then False
                 else if status = ''upcoming'' then show_upcoming
                 else if status = ''active'' then show_active
                 else if status = ''expired'' then show_expired
                 else if status = ''finished'' then show_finished
                 else False)
         | Some c \<Rightarrow>
             (let elig = (case eligible c of Some e \<Rightarrow> e | None \<Rightarrow> True)
              in if show_not_linked \<and> \<not> elig then False
                 else if status = ''upcoming'' then show_upcoming
                 else if status = ''active'' then show_active
                 else if status = ''expired'' then show_expired
                 else if status = ''finished'' then show_finished
                 else True))"

text \<open>
  \<^verbatim>\<open>WebUIManager._should_show_campaign\<close> of webui.py. It reads the manager's filter
  dictionary by subscript (a missing key raises \<^verbatim>\<open>KeyError\<close>) and the controller's
  settings: \<open>twitch_settings = None\<close> is a controller with no \<^verbatim>\<open>settings\<close> attribute,
  \<open>exclude = None\<close> a settings object with no \<^verbatim>\<open>exclude\<close> attribute. The two debug
  lines it prints go to the console log only and are left out.
\<close>

record settings =
  exclude :: "string set option"

definition filters_item :: "filters \<Rightarrow> string \<Rightarrow> py_error + bool" where
  "filters_item f k = (case f k of Some b \<Rightarrow> Inr b | None \<Rightarrow> Inl KeyError)"

definition should_show_decide ::
  "settings option \<Rightarrow> campaign_data \<Rightarrow> bool \<Rightarrow> bool \<Rightarrow> bool \<Rightarrow> bool \<Rightarrow> bool \<Rightarrow> bool \<Rightarrow> bool" where
  "should_show_decide twitch_settings cd show_not_linked show_upcoming show_active
       show_expired show_excluded show_finished =
     (let status = status_of cd
      in case campaign_obj cd of
           None \<Rightarrow>
             (let any_filter_enabled =
                    (show_not_linked \<or> show_upcoming \<or> show_active \<or> show_expired \<or>
                     show_excluded \<or> show_finished)
              in if \<not> any_filter_enabled then False
                 else if status = ''upcoming'' then show_upcoming
                 else if status = ''active'' then show_active
                 else if status = ''expired'' then show_expired
                 else if status = ''finished'' then show_finished
                 else False)
         | Some c \<Rightarrow>
             (let elig = (case eligible c of Some e \<Rightarrow> e | None \<Rightarrow> True)
              in if show_not_linked \<and> \<not> elig then False
                 else if status = ''upcoming'' then show_upcoming
                 else if status = ''active'' then show_active
                 else if status = ''expired'' then show_expired
                 else if status = ''finished'' then show_finished
                 else
                   (case (game c, twitch_settings) of
                      (Some g, Some st) \<Rightarrow>
                        (let gname = (case game_name g of Some n \<Rightarrow> n | None \<Rightarrow> []);
                             is_excluded =
                               (gname \<in> (case exclude st of Some ex \<Rightarrow> ex | None \<Rightarrow> {}))
                         in if is_excluded \<and> \<not> show_excluded then False else True)
                    | _ \<Rightarrow> True)))"

definition should_show_campaign ::
  "settings option \<Rightarrow> filters \<Rightarrow> campaign_data \<Rightarrow> py_error + bool" where
  "should_show_campaign twitch_settings f cd =
     (case filters_item f ''not_linked'' of Inl e \<Rightarrow> Inl e | Inr show_not_linked \<Rightarrow>
     (case filters_item f ''upcoming'' of Inl e \<Rightarrow> Inl e | Inr show_upcoming \<Rightarrow>
     (case filters_item f ''active'' of Inl e \<Rightarrow> Inl e | Inr show_active \<Rightarrow>
     (case filters_item f ''expired'' of Inl e \<Rightarrow> Inl e | Inr show_expired \<Rightarrow>
     (case filters_item f ''excluded'' of Inl e \<Rightarrow> Inl e | Inr show_excluded \<Rightarrow>
     (case filters_item f ''finished'' of Inl e \<Rightarrow> Inl e | Inr show_finished \<Rightarrow>
        Inr (should_show_decide twitch_settings cd show_not_linked show_upcoming show_active
               show_expired show_excluded show_finished)))))))"

text \<open>The filter dictionary a manager is constructed with: six keys, all \<^verbatim>\<open>False\<close>.\<close>

definition initial_filters :: filters where
  "initial_filters =
     [''not_linked'' \<mapsto> False, ''upcoming'' \<mapsto> False, ''active'' \<mapsto> False,
      ''expired'' \<mapsto> False, ''excluded'' \<mapsto> False, ''finished'' \<mapsto> False]"

section \<open>Campaign progress\<close>

text \<open>
  The loop of \<^verbatim>\<open>get_campaign_progress\<close>: it returns at the first drop that has both
  minute attributes and a positive \<^verbatim>\<open>required_minutes\<close>. Python's true division of
  two integers gives a float; the model computes the quotient in the reals.
\<close>

fun progress_loop :: "drop list \<Rightarrow> real" where
  "progress_loop [] = 0"
| "progress_loop (d # ds) =
     (case current_minutes d of
        None \<Rightarrow> progress_loop ds
      | Some cur \<Rightarrow>
          (case required_minutes d of
             None \<Rightarrow> progress_loop ds
           | Some req \<Rightarrow>
               if req > 0 then (real_of_int cur / real_of_int req) * 100
               else progress_loop ds))"

text \<open>webui/utils.py: a campaign without \<^verbatim>\<open>drops\<close> has progress 0.\<close>

definition get_campaign_progress :: "campaign \<Rightarrow> real" where
  "get_campaign_progress c = (case drops c of None \<Rightarrow> 0 | Some ds \<Rightarrow> progress_loop ds)"

text \<open>webui.py reads \<^verbatim>\<open>campaign.drops\<close> unguarded.\<close>

definition WebUIManager_get_campaign_progress :: "campaign \<Rightarrow> py_error + real" where
  "WebUIManager_get_campaign_progress c =
     (case drops c of None \<Rightarrow> Inl AttributeError | Some ds \<Rightarrow> Inr (progress_loop ds))"

text \<open>
  The progress of the specification's data model, written from its words for comparison:
  the maximum over the drops of current/required times 100, 0 when no drop reports
  minutes, clamped into 0..100.
\<close>

definition drop_ratios :: "drop list \<Rightarrow> real list" where
  "drop_ratios ds =
     concat (map (\<lambda>d. case (current_minutes d, required_minutes d) of
                          (Some cur, Some req) \<Rightarrow>
                            if req > 0 then [(real_of_int cur / real_of_int req) * 100] else []
                        | _ \<Rightarrow> []) ds)"

definition spec_progress_percent :: "campaign \<Rightarrow> real" where
  "spec_progress_percent c =
     (let rs = drop_ratios (case drops c of None \<Rightarrow> [] | Some ds \<Rightarrow> ds)
      in min 100 (max 0 (fold max rs 0)))"

text \<open>A drop qualifies when the loop returns at it.\<close>

definition reports_progress :: "drop \<Rightarrow> bool" where
  "reports_progress d =
     (case (current_minutes d, required_minutes d) of
        (Some cur, Some req) \<Rightarrow> req > 0
      | _ \<Rightarrow> False)"

definition drop_percent :: "drop \<Rightarrow> real" where
  "drop_percent d =
     (case (current_minutes d, required_minutes d) of
        (Some cur, Some req) \<Rightarrow> (real_of_int cur / real_of_int req) * 100
      | _ \<Rightarrow> 0)"

section \<open>The manager's state\<close>

text \<open>
  The rows of the inventory container. A campaign card carries what
  \<^verbatim>\<open>add_campaign_to_display\<close> puts on it: name, game, status, the status label's
  classes, and the progress column (progress with the time remaining) that is only
  drawn for a positive progress.
\<close>

record card =
  card_name :: string
  card_game :: string
  card_status :: string
  card_status_class :: string
  card_progress :: "(real \<times> string option) option"

datatype row = Placeholder string | CampaignCard card

text \<open>
  The fields of \<^verbatim>\<open>WebUIManager\<close> the modelled methods touch. \<open>console\<close> is the live log
  element (\<open>None\<close> until the page is built) as the list of lines pushed to it; \<open>stdout\<close>
  collects what falls back to the built-in \<^verbatim>\<open>print\<close>. \<open>campaigns\<close> is the dictionary in
  insertion order.
\<close>

record manager =
  close_requested :: bool
  console_log :: "string list"
  console :: "string list option"
  stdout :: "string list"
  inventory_filters :: filters
  campaigns :: "(string \<times> campaign_data) list"
  inventory_container :: "row list option"

definition initial_manager :: manager where
  "initial_manager =
     \<lparr>close_requested = False, console_log = [], console = None, stdout = [],
      inventory_filters = initial_filters, campaigns = [], inventory_container = None\<rparr>"

text \<open>The one capacity in the source: \<^verbatim>\<open>ui.log(max_lines=50)\<close>, of the live log element.\<close>

definition console_max_lines :: nat where
  "console_max_lines = 50"

section \<open>Console output (webui/manager.py)\<close>

text \<open>\<^verbatim>\<open>message.split('\n')\<close>\<close>

fun split_newline :: "string \<Rightarrow> string list" where
  "split_newline [] = [[]]"
| "split_newline (c # cs) =
     (if c = CHR 0x0A then [] # split_newline cs
      else (case split_newline cs of
              l # ls \<Rightarrow> (c # l) # ls
            | [] \<Rightarrow> [[c]]))"

text \<open>\<^verbatim>\<open>str.isspace\<close> on ASCII; \<^verbatim>\<open>line.strip()\<close> is true when a character is left.\<close>

definition is_space :: "char \<Rightarrow> bool" where
  "is_space c = (let n = (of_char c :: nat) in (9 \<le> n \<and> n \<le> 13) \<or> (28 \<le> n \<and> n \<le> 32))"

definition strip_nonempty :: "string \<Rightarrow> bool" where
  "strip_nonempty l = (filter (\<lambda>c. \<not> is_space c) l \<noteq> [])"

definition format_message :: "string \<Rightarrow> string \<Rightarrow> string" where
  "format_message timestamp message = timestamp @ '': '' @ message"

text \<open>
  \<^verbatim>\<open>WebUIManager.print\<close>. The timestamp read from the clock is a parameter. A push to the
  live log element is taken to succeed.
\<close>

definition print :: "manager \<Rightarrow> string \<Rightarrow> string \<Rightarrow> manager" where
  "print m timestamp message =
     (let formatted_message = format_message timestamp message;
          m1 = m\<lparr>console_log := console_log m @ [formatted_message]\<rparr>
      in case console m1 of
           Some pushed \<Rightarrow>
             (if CHR 0x0A \<in> set message
              then m1\<lparr>console := Some (pushed @
                     map (format_message timestamp)
                       (filter strip_nonempty (split_newline message)))\<rparr>
              else m1\<lparr>console := Some (pushed @ [formatted_message])\<rparr>)
         | None \<Rightarrow> m1\<lparr>stdout := stdout m1 @ [formatted_message]\<rparr>)"

text \<open>A sequence of print calls, each with the time it was made at.\<close>

fun print_all :: "manager \<Rightarrow> (string \<times> string) list \<Rightarrow> manager" where
  "print_all m [] = m"
| "print_all m ((timestamp, message) # rest) = print_all (print m timestamp message) rest"

section \<open>Inventory display (webui/components/inventory_panel.py)\<close>











section \<open>Websocket status (webui/mock_classes.py)\<close>

record ws_item =
  ws_status :: string
  ws_topics :: int

type_synonym ws_items = "int \<rightharpoonup> ws_item"

text \<open>
  \<^verbatim>\<open>MockWebsocketStatus.update\<close>: the result is the exception raised, if any, with the
  dictionary the call leaves behind. The entry of the index is seeded when missing, then
  its two fields are assigned in turn.
\<close>

definition MockWebsocketStatus_update ::
  "ws_items \<Rightarrow> int \<Rightarrow> string option \<Rightarrow> int option \<Rightarrow> py_error option \<times> ws_items" where
  "MockWebsocketStatus_update items idx status topics =
     (if status = None \<and> topics = None then (Some TypeError, items)
      else
        (let item0 = (case items idx of
                        None \<Rightarrow> \<lparr>ws_status = ''disconnected'', ws_topics = 0\<rparr>
                      | Some it \<Rightarrow> it);
             item1 = (case status of Some s \<Rightarrow> item0\<lparr>ws_status := s\<rparr> | None \<Rightarrow> item0);
             item2 = (case topics of Some t \<Rightarrow> item1\<lparr>ws_topics := t\<rparr> | None \<Rightarrow> item1)
         in (None, items(idx \<mapsto> item2))))"

definition MockWebsocketStatus_remove :: "ws_items \<Rightarrow> int \<Rightarrow> ws_items" where
  "MockWebsocketStatus_remove items idx = (if idx \<in> dom items then items(idx := None) else items)"

section \<open>Lifecycle gate (webui/manager.py)\<close>




















section \<open>Vocabulary of the statements\<close>

text \<open>The four lifecycle buckets, as the lower-cased status is compared with them.\<close>

definition in_bucket :: "string \<Rightarrow> bool" where
  "in_bucket s = (s = ''upcoming'' \<or> s = ''active'' \<or> s = ''expired'' \<or> s = ''finished'')"

text \<open>A filter dictionary that holds all six keys, so no subscript raises.\<close>

definition has_all_keys :: "filters \<Rightarrow> bool" where
  "has_all_keys f =
     (f ''not_linked'' \<noteq> None \<and> f ''upcoming'' \<noteq> None \<and> f ''active'' \<noteq> None \<and>
      f ''expired'' \<noteq> None \<and> f ''excluded'' \<noteq> None \<and> f ''finished'' \<noteq> None)"

text \<open>All six flags are present and false.\<close>

definition all_flags_false :: "filters \<Rightarrow> bool" where
  "all_flags_false f =
     (f ''not_linked'' = Some False \<and> f ''upcoming'' = Some False \<and> f ''active'' = Some False \<and>
      f ''expired'' = Some False \<and> f ''excluded'' = Some False \<and> f ''finished'' = Some False)"

text \<open>
  The test \<^verbatim>\<open>is_excluded\<close> of \<^verbatim>\<open>_should_show_campaign\<close>: the campaign has a game, the
  controller has settings, and the game's name is among the excluded games.
\<close>

definition is_excluded_game :: "settings option \<Rightarrow> campaign \<Rightarrow> bool" where
  "is_excluded_game st c =
     (case (game c, st) of
        (Some g, Some s) \<Rightarrow>
          (case game_name g of Some n \<Rightarrow> n | None \<Rightarrow> []) \<in>
          (case exclude s of Some ex \<Rightarrow> ex | None \<Rightarrow> {})
      | _ \<Rightarrow> False)"


subsection \<open>Concrete inputs\<close>

text \<open>A live campaign object of the game \<open>Game\<close> that reports no lifecycle flag.\<close>

definition live_campaign :: "bool \<Rightarrow> campaign" where
  "live_campaign elig =
     \<lparr>name = Some ''Campaign'', game = Some \<lparr>game_name = Some ''Game''\<rparr>,
      active = Some False, upcoming = Some False, expired = Some False,
      eligible = Some elig, drops = Some []\<rparr>"

definition live_entry :: "string \<Rightarrow> bool \<Rightarrow> campaign_data" where
  "live_entry status elig =
     \<lparr>cd_name = Some ''Campaign'', cd_game = Some ''Game'', cd_status = Some status,
      cd_progress = Some 0, cd_time_remaining = Some [],
      campaign_obj = Some (live_campaign elig)\<rparr>"

text \<open>A synthetic entry: a name and a status, no live object.\<close>

definition synthetic_entry :: "string \<Rightarrow> string \<Rightarrow> campaign_data" where
  "synthetic_entry n status =
     \<lparr>cd_name = Some n, cd_game = None, cd_status = Some status,
      cd_progress = None, cd_time_remaining = None, campaign_obj = None\<rparr>"

definition campaign_with_drops :: "drop list \<Rightarrow> campaign" where
  "campaign_with_drops ds =
     \<lparr>name = Some ''Campaign'', game = None, active = Some True, upcoming = Some False,
      expired = Some False, eligible = Some True, drops = Some ds\<rparr>"

definition two_drops :: campaign where
  "two_drops = campaign_with_drops
     [\<lparr>current_minutes = Some 25, required_minutes = Some 100\<rparr>,
      \<lparr>current_minutes = Some 50, required_minutes = Some 100\<rparr>]"

definition over_drop :: campaign where
  "over_drop = campaign_with_drops [\<lparr>current_minutes = Some 300, required_minutes = Some 100\<rparr>]"

text \<open>A campaign whose first drop requires no minutes.\<close>

definition three_drops :: campaign where
  "three_drops = campaign_with_drops
     [\<lparr>current_minutes = Some 10, required_minutes = Some 0\<rparr>,
      \<lparr>current_minutes = Some 25, required_minutes = Some 100\<rparr>,
      \<lparr>current_minutes = Some 50, required_minutes = Some 100\<rparr>]"


section \<open>Helper lemmas\<close>

lemma lower_literals:
  "lower ''Active'' = ''active''" "lower ''Upcoming'' = ''upcoming''"
  "lower ''Expired'' = ''expired''" "lower ''Unknown'' = ''unknown''"
  by (simp_all add: lower_def lower_char_def)

lemma status_values:
  "get_campaign_status c \<in> {''Active'', ''Upcoming'', ''Expired'', ''Unknown''}"
  by (simp add: get_campaign_status_def)

lemma lower_status_not_finished: "lower (get_campaign_status c) \<noteq> ''finished''"
  using status_values [of c] by (auto simp: lower_literals)

lemma status_of_live_entry:
  "status_of (live_entry ''Active'' e) = ''active''"
  "status_of (live_entry ''Unknown'' e) = ''unknown''"
  by (simp_all add: status_of_def live_entry_def lower_literals)


lemma filters_item_get:
  "f k \<noteq> None \<Longrightarrow> filters_item f k = Inr (filters_get f k)"
  by (auto simp: filters_item_def filters_get_def)

lemma should_show_campaign_keys:
  "has_all_keys f \<Longrightarrow>
   should_show_campaign st f cd =
     Inr (should_show_decide st cd (filters_get f ''not_linked'') (filters_get f ''upcoming'')
       (filters_get f ''active'') (filters_get f ''expired'') (filters_get f ''excluded'')
       (filters_get f ''finished''))"
  by (simp add: has_all_keys_def should_show_campaign_def filters_item_get)

lemma all_flags_false_initial: "all_flags_false initial_filters"
  by (simp add: all_flags_false_def initial_filters_def)

lemma progress_loop_first:
  "\<lbrakk>\<forall>x\<in>set pre. \<not> reports_progress x; reports_progress d\<rbrakk>
   \<Longrightarrow> progress_loop (pre @ d # post) = drop_percent d"
  by (induction pre) (auto simp: reports_progress_def drop_percent_def split: option.splits)

lemma progress_loop_none:
  "\<forall>x\<in>set ds. \<not> reports_progress x \<Longrightarrow> progress_loop ds = 0"
  by (induction ds) (auto simp: reports_progress_def split: option.splits)

lemma console_log_print: "console_log (print m t s) = console_log m @ [format_message t s]"
  by (simp add: print_def Let_def split: option.splits)

lemma console_log_print_all:
  "console_log (print_all m ls) = console_log m @ map (\<lambda>(t, s). format_message t s) ls"
  by (induction m ls rule: print_all.induct) (simp_all add: console_log_print)





















section \<open>Lifecycle gate\<close>




section \<open>Filter engine\<close>

text \<open>
  Claim C2, as stated, fails: with the six flags of a new manager, all false, a live-backed
  campaign of status \<open>Unknown\<close> is shown, by \<^verbatim>\<open>should_show_campaign_with_filters\<close> and by
  \<^verbatim>\<open>_should_show_campaign\<close> alike.
\<close>

theorem no_filters_live_unknown_shown:
  "all_flags_false initial_filters \<and>
   should_show_campaign_with_filters (live_entry ''Unknown'' True) initial_filters = True \<and>
   should_show_campaign None initial_filters (live_entry ''Unknown'' True) = Inr True"
  by (simp add: all_flags_false_def should_show_campaign_with_filters_def
      should_show_campaign_def should_show_decide_def filters_get_def filters_item_def
      status_of_live_entry initial_filters_def)
    (simp add: live_entry_def live_campaign_def)

text \<open>
  Claim C2, amended. With all six flags false, a synthetic campaign is hidden, and so is
  a live-backed campaign whose status is one of the four buckets, in both
  implementations. A live-backed campaign whose status is in no bucket is shown by both
  when its game is not among the excluded games, and hidden by \<^verbatim>\<open>_should_show_campaign\<close>
  when it is.
\<close>

theorem no_filters_hidden:
  assumes "all_flags_false f"
  shows "(campaign_obj cd = None \<or> in_bucket (status_of cd) \<longrightarrow>
            \<not> should_show_campaign_with_filters cd f \<and>
            should_show_campaign st f cd = Inr False) \<and>
         (campaign_obj cd = Some c \<and> \<not> in_bucket (status_of cd) \<and>
          \<not> is_excluded_game st c \<longrightarrow>
            should_show_campaign_with_filters cd f \<and>
            should_show_campaign st f cd = Inr True) \<and>
         (campaign_obj cd = Some c \<and> \<not> in_bucket (status_of cd) \<and>
          is_excluded_game st c \<longrightarrow>
            should_show_campaign st f cd = Inr False)"
  using assms
  by (auto simp add: all_flags_false_def in_bucket_def should_show_campaign_with_filters_def
      should_show_campaign_def should_show_decide_def filters_get_def filters_item_def
      is_excluded_game_def split: option.splits)

theorem no_filters_hidden_witness:
  "all_flags_false initial_filters \<and>
   campaign_obj (synthetic_entry ''First'' ''Active'') = None \<and>
   \<not> should_show_campaign_with_filters (synthetic_entry ''First'' ''Active'') initial_filters \<and>
   should_show_campaign None initial_filters (synthetic_entry ''First'' ''Active'') = Inr False"
proof -
  have o: "campaign_obj (synthetic_entry ''First'' ''Active'') = None"
    by (simp add: synthetic_entry_def)
  show ?thesis
    using o all_flags_false_initial
      no_filters_hidden [OF all_flags_false_initial,
        of "synthetic_entry ''First'' ''Active''" None "live_campaign True"]
    by simp
qed

text \<open>
  Claim C3, as stated, fails twice. A live-backed campaign of status \<open>Active\<close> that is not
  eligible is hidden when \<open>not_linked\<close> is on, although the \<open>active\<close> flag is true: the
  bucket's flag is not what is returned. And \<^verbatim>\<open>should_show_campaign_with_filters\<close> knows
  no excluded games: it shows a campaign of status \<open>Unknown\<close> whose game
  \<^verbatim>\<open>_should_show_campaign\<close> finds excluded and hides.
\<close>

theorem bucket_flag_not_returned:
  "filters_get (initial_filters(''not_linked'' \<mapsto> True, ''active'' \<mapsto> True)) ''active'' = True \<and>
   should_show_campaign_with_filters (live_entry ''Active'' False)
     (initial_filters(''not_linked'' \<mapsto> True, ''active'' \<mapsto> True)) = False \<and>
   should_show_campaign None (initial_filters(''not_linked'' \<mapsto> True, ''active'' \<mapsto> True))
     (live_entry ''Active'' False) = Inr False \<and>
   should_show_campaign (Some \<lparr>exclude = Some {''Game''}\<rparr>) initial_filters
     (live_entry ''Unknown'' True) = Inr False \<and>
   should_show_campaign_with_filters (live_entry ''Unknown'' True) initial_filters = True"
  by (simp add: initial_filters_def should_show_campaign_with_filters_def
      should_show_campaign_def should_show_decide_def filters_get_def filters_item_def
      status_of_live_entry)
    (simp add: live_entry_def live_campaign_def)

text \<open>
  Claim C3, amended. For a live-backed campaign that the eligibility rule does not hide
  (\<open>not_linked\<close> off, or the campaign not marked ineligible): when its status is one of the
  four buckets, both implementations return that bucket's flag, whatever the \<open>excluded\<close>
  flag and the excluded games are; when its status is in no bucket,
  \<^verbatim>\<open>_should_show_campaign\<close> hides it if its game is among the excluded games of the
  settings and the \<open>excluded\<close> flag is false.
\<close>

theorem bucket_flag_after_eligibility:
  assumes "campaign_obj cd = Some c"
    and "\<not> (filters_get f ''not_linked'' \<and> eligible c = Some False)"
  shows "(status_of cd = ''upcoming'' \<longrightarrow>
            should_show_campaign_with_filters cd f = filters_get f ''upcoming'' \<and>
            (has_all_keys f \<longrightarrow>
               should_show_campaign st f cd = Inr (filters_get f ''upcoming''))) \<and>
         (status_of cd = ''active'' \<longrightarrow>
            should_show_campaign_with_filters cd f = filters_get f ''active'' \<and>
            (has_all_keys f \<longrightarrow>
               should_show_campaign st f cd = Inr (filters_get f ''active''))) \<and>
         (status_of cd = ''expired'' \<longrightarrow>
            should_show_campaign_with_filters cd f = filters_get f ''expired'' \<and>
            (has_all_keys f \<longrightarrow>
               should_show_campaign st f cd = Inr (filters_get f ''expired''))) \<and>
         (status_of cd = ''finished'' \<longrightarrow>
            should_show_campaign_with_filters cd f = filters_get f ''finished'' \<and>
            (has_all_keys f \<longrightarrow>
               should_show_campaign st f cd = Inr (filters_get f ''finished''))) \<and>
         (\<not> in_bucket (status_of cd) \<and> has_all_keys f \<and> is_excluded_game st c \<and>
          \<not> filters_get f ''excluded'' \<longrightarrow> should_show_campaign st f cd = Inr False)"
  using assms
  by (auto simp add: should_show_campaign_keys in_bucket_def is_excluded_game_def
      should_show_campaign_with_filters_def should_show_decide_def split: option.splits)

theorem bucket_flag_after_eligibility_witness:
  "campaign_obj (live_entry ''Active'' True) = Some (live_campaign True) \<and>
   \<not> (filters_get (initial_filters(''active'' \<mapsto> True)) ''not_linked'' \<and>
      eligible (live_campaign True) = Some False) \<and>
   has_all_keys (initial_filters(''active'' \<mapsto> True)) \<and>
   should_show_campaign_with_filters (live_entry ''Active'' True)
     (initial_filters(''active'' \<mapsto> True)) = True \<and>
   should_show_campaign (Some \<lparr>exclude = Some {''Game''}\<rparr>)
     (initial_filters(''active'' \<mapsto> True)) (live_entry ''Active'' True) = Inr True"
proof -
  have o: "campaign_obj (live_entry ''Active'' True) = Some (live_campaign True)"
    by (simp add: live_entry_def)
  have e: "\<not> (filters_get (initial_filters(''active'' \<mapsto> True)) ''not_linked'' \<and>
      eligible (live_campaign True) = Some False)"
    by (simp add: live_campaign_def)
  have k: "has_all_keys (initial_filters(''active'' \<mapsto> True))"
    by (simp add: has_all_keys_def initial_filters_def)
  have a: "filters_get (initial_filters(''active'' \<mapsto> True)) ''active'' = True"
    by (simp add: filters_get_def)
  show ?thesis
    using o e k a status_of_live_entry(1) [of True]
      bucket_flag_after_eligibility [OF o e, of "Some \<lparr>exclude = Some {''Game''}\<rparr>"]
    by simp
qed

text \<open>
  Claim C8. A campaign backed by a live object with \<open>eligible = False\<close> is hidden whenever
  the \<open>not_linked\<close> flag is true, whatever its status and the other five flags:
  \<^verbatim>\<open>should_show_campaign_with_filters\<close> returns false, and \<^verbatim>\<open>_should_show_campaign\<close> never
  returns true.
\<close>

theorem not_linked_hides_ineligible:
  assumes "campaign_obj cd = Some c" and "eligible c = Some False"
    and "filters_get f ''not_linked''"
  shows "\<not> should_show_campaign_with_filters cd f \<and> should_show_campaign st f cd \<noteq> Inr True"
  using assms
  by (auto simp add: should_show_campaign_with_filters_def should_show_campaign_def
      should_show_decide_def filters_get_def filters_item_def split: option.splits sum.splits)

theorem not_linked_hides_ineligible_witness:
  "campaign_obj (live_entry ''Active'' False) = Some (live_campaign False) \<and>
   eligible (live_campaign False) = Some False \<and>
   filters_get (initial_filters(''not_linked'' \<mapsto> True, ''active'' \<mapsto> True)) ''not_linked'' \<and>
   \<not> should_show_campaign_with_filters (live_entry ''Active'' False)
       (initial_filters(''not_linked'' \<mapsto> True, ''active'' \<mapsto> True))"
proof -
  have o: "campaign_obj (live_entry ''Active'' False) = Some (live_campaign False)"
    by (simp add: live_entry_def)
  have e: "eligible (live_campaign False) = Some False"
    by (simp add: live_campaign_def)
  have n: "filters_get (initial_filters(''not_linked'' \<mapsto> True, ''active'' \<mapsto> True))
      ''not_linked''"
    by (simp add: filters_get_def)
  show ?thesis
    using o e n not_linked_hides_ineligible [OF o e n, of None]
    by simp
qed

text \<open>
  Claim C10. The status derived from a campaign object is \<open>Active\<close> if it reports active,
  else \<open>Upcoming\<close> if it reports upcoming, else \<open>Expired\<close> if it reports expired, else
  \<open>Unknown\<close>, in \<^verbatim>\<open>get_campaign_status\<close> and in \<^verbatim>\<open>MockInventory._get_campaign_status\<close>
  alike. It is never \<open>Finished\<close>, nor is the status \<^verbatim>\<open>WebUIManager._get_campaign_status\<close>
  derives, so an entry that carries a derived status and a live object is never matched
  with the finished bucket: its visibility does not depend on the \<open>finished\<close> flag.
\<close>

theorem campaign_status_precedence:
  "(active c = Some True \<longrightarrow> get_campaign_status c = ''Active'') \<and>
   (active c \<noteq> Some True \<and> upcoming c = Some True \<longrightarrow>
      get_campaign_status c = ''Upcoming'') \<and>
   (active c \<noteq> Some True \<and> upcoming c \<noteq> Some True \<and> expired c = Some True \<longrightarrow>
      get_campaign_status c = ''Expired'') \<and>
   (active c \<noteq> Some True \<and> upcoming c \<noteq> Some True \<and> expired c \<noteq> Some True \<longrightarrow>
      get_campaign_status c = ''Unknown'') \<and>
   MockInventory_get_campaign_status c = get_campaign_status c \<and>
   get_campaign_status c \<noteq> ''Finished'' \<and>
   WebUIManager_get_campaign_status c \<noteq> Inr ''Finished'' \<and>
   lower (get_campaign_status c) \<noteq> ''finished'' \<and>
   (campaign_obj cd = Some c' \<and> cd_status cd = Some (get_campaign_status c) \<longrightarrow>
      should_show_campaign_with_filters cd (f(''finished'' \<mapsto> b)) =
      should_show_campaign_with_filters cd f)"
proof -
  have a: "get_campaign_status c \<noteq> ''Finished''"
    using status_values [of c] by auto
  have b: "campaign_obj cd = Some c' \<and> cd_status cd = Some (get_campaign_status c) \<longrightarrow>
      should_show_campaign_with_filters cd (f(''finished'' \<mapsto> b)) =
      should_show_campaign_with_filters cd f"
    using lower_status_not_finished [of c]
    by (simp add: should_show_campaign_with_filters_def status_of_def filters_get_def)
  have w: "WebUIManager_get_campaign_status c \<noteq> Inr ''Finished''"
    by (simp add: WebUIManager_get_campaign_status_def split: option.splits)
  show ?thesis
    using a b w lower_status_not_finished [of c]
    by (simp add: get_campaign_status_def MockInventory_get_campaign_status_def)
qed

theorem campaign_status_precedence_witness:
  "active (live_campaign True) \<noteq> Some True \<and> upcoming (live_campaign True) \<noteq> Some True \<and>
   expired (live_campaign True) \<noteq> Some True \<and>
   get_campaign_status (live_campaign True) = ''Unknown'' \<and>
   MockInventory_get_campaign_status (live_campaign True) = ''Unknown'' \<and>
   active two_drops = Some True \<and> get_campaign_status two_drops = ''Active''"
proof -
  have l: "active (live_campaign True) \<noteq> Some True \<and> upcoming (live_campaign True) \<noteq> Some True \<and>
      expired (live_campaign True) \<noteq> Some True"
    by (simp add: live_campaign_def)
  have t: "active two_drops = Some True"
    by (simp add: two_drops_def campaign_with_drops_def)
  show ?thesis
    using l t
      campaign_status_precedence [of "live_campaign True" "live_entry ''Unknown'' True"
        "live_campaign True" initial_filters True]
      campaign_status_precedence [of two_drops "live_entry ''Unknown'' True"
        "live_campaign True" initial_filters True]
    by simp
qed

section \<open>Campaign progress\<close>

text \<open>
  Claim C4, as stated, fails. With a first drop at 25 of 100 minutes and a second at 50 of
  100, the progress computed is 25, not the maximum 50; and with one drop at 300 of 100
  minutes it is 300, outside 0..100.
\<close>

theorem progress_not_max_nor_clamped:
  "get_campaign_progress two_drops = 25 \<and> spec_progress_percent two_drops = 50 \<and>
   WebUIManager_get_campaign_progress two_drops = Inr 25 \<and>
   get_campaign_progress two_drops \<noteq> spec_progress_percent two_drops \<and>
   get_campaign_progress over_drop = 300 \<and> spec_progress_percent over_drop = 100 \<and>
   \<not> get_campaign_progress over_drop \<le> 100"
  by (simp add: get_campaign_progress_def spec_progress_percent_def drop_ratios_def
      WebUIManager_get_campaign_progress_def two_drops_def over_drop_def
      campaign_with_drops_def)

text \<open>
  Claim C4, amended. The progress of a campaign is current/required times 100 of the
  first drop, in order, that has both minute attributes and a positive required count,
  and 0 when no drop is such, or when the campaign has no drops attribute
  (\<^verbatim>\<open>get_campaign_progress\<close>). No maximum is taken and nothing is clamped.
\<close>

theorem progress_first_reporting_drop:
  "(drops c = Some (pre @ d # post) \<and> (\<forall>x\<in>set pre. \<not> reports_progress x) \<and>
    reports_progress d \<longrightarrow>
      get_campaign_progress c = drop_percent d \<and>
      WebUIManager_get_campaign_progress c = Inr (drop_percent d)) \<and>
   (drops c = Some ds \<and> (\<forall>x\<in>set ds. \<not> reports_progress x) \<longrightarrow>
      get_campaign_progress c = 0 \<and> WebUIManager_get_campaign_progress c = Inr 0) \<and>
   (drops c = None \<longrightarrow> get_campaign_progress c = 0)"
  by (simp add: get_campaign_progress_def WebUIManager_get_campaign_progress_def
      progress_loop_first progress_loop_none)

theorem progress_first_reporting_drop_witness:
  "drops three_drops =
     Some ([\<lparr>current_minutes = Some 10, required_minutes = Some 0\<rparr>] @
           \<lparr>current_minutes = Some 25, required_minutes = Some 100\<rparr> #
           [\<lparr>current_minutes = Some 50, required_minutes = Some 100\<rparr>]) \<and>
   \<not> reports_progress \<lparr>current_minutes = Some 10, required_minutes = Some 0\<rparr> \<and>
   reports_progress \<lparr>current_minutes = Some 25, required_minutes = Some 100\<rparr> \<and>
   get_campaign_progress three_drops = 25 \<and>
   WebUIManager_get_campaign_progress three_drops = Inr 25"
proof -
  let ?d0 = "\<lparr>current_minutes = Some 10, required_minutes = Some 0\<rparr>"
  let ?d1 = "\<lparr>current_minutes = Some 25, required_minutes = Some 100\<rparr>"
  let ?d2 = "\<lparr>current_minutes = Some 50, required_minutes = Some 100\<rparr>"
  have d: "drops three_drops = Some ([?d0] @ ?d1 # [?d2])"
    by (simp add: three_drops_def campaign_with_drops_def)
  have p: "\<not> reports_progress ?d0"
    by (simp add: reports_progress_def)
  have q: "\<forall>x\<in>set [?d0]. \<not> reports_progress x"
    using p by simp
  have r: "reports_progress ?d1"
    by (simp add: reports_progress_def)
  have v: "drop_percent ?d1 = 25"
    by (simp add: drop_percent_def)
  have g: "get_campaign_progress three_drops = drop_percent ?d1 \<and>
      WebUIManager_get_campaign_progress three_drops = Inr (drop_percent ?d1)"
    using d q r progress_first_reporting_drop [of three_drops "[?d0]" ?d1 "[?d2]" "[]"]
    by blast
  show ?thesis
    using d p r g v by simp
qed

section \<open>Console log\<close>

text \<open>
  Claim C5, as stated, fails: the stored console log has no capacity. The one capacity in
  the source is that of the live log element, 50 lines; one print more than that, on a
  new manager, leaves as many lines in the stored log, and after a first print and 50
  more the oldest line is still its first.
\<close>

theorem console_log_exceeds_capacity:
  "length (console_log (print_all initial_manager
      (replicate (console_max_lines + 1) (''12:00:00'', ''line'')))) = console_max_lines + 1 \<and>
   \<not> length (console_log (print_all initial_manager
      (replicate (console_max_lines + 1) (''12:00:00'', ''line'')))) \<le> console_max_lines \<and>
   console_log (print_all initial_manager
      ((''12:00:00'', ''oldest'') # replicate console_max_lines (''12:00:01'', ''line''))) ! 0
     = ''12:00:00: oldest''"
  by (simp only: console_log_print_all)
    (simp add: initial_manager_def format_message_def console_max_lines_def)

text \<open>
  Claim C5, amended. Every print call appends one line, the timestamp followed by the
  message, to the stored console log and drops none: after any sequence of print calls
  the log is the log before followed by the lines printed, in call order, and its length
  has grown by the number of calls.
\<close>

theorem console_log_grows:
  "console_log (print_all m ls) = console_log m @ map (\<lambda>(t, s). format_message t s) ls \<and>
   length (console_log (print_all m ls)) = length (console_log m) + length ls"
  by (simp add: console_log_print_all)

theorem console_log_grows_witness:
  "console_log (print_all initial_manager [(''12:00:00'', ''a''), (''12:00:01'', ''b'')]) =
     [''12:00:00: a'', ''12:00:01: b''] \<and>
   length (console_log
     (print_all initial_manager [(''12:00:00'', ''a''), (''12:00:01'', ''b'')])) = 2"
proof -
  have i: "console_log initial_manager = []"
    by (simp add: initial_manager_def)
  show ?thesis
    using console_log_grows [of initial_manager "[(''12:00:00'', ''a''), (''12:00:01'', ''b'')]"]
    by (simp only: i) (simp add: format_message_def)
qed

section \<open>Inventory display\<close>




section \<open>Websocket status\<close>

text \<open>
  Claim C7. \<^verbatim>\<open>update(idx)\<close> with neither status nor topics raises \<^verbatim>\<open>TypeError\<close>, the
  invalid-argument error, and leaves the dictionary as it was. The first update of an
  index stores the defaults \<open>disconnected\<close> and 0 overwritten by the fields given. So on
  an index not yet present, \<^verbatim>\<open>update(0, status="connected")\<close> followed by
  \<^verbatim>\<open>update(0, topics=5)\<close> leaves the entry with status \<open>connected\<close> and 5 topics.
\<close>

theorem websocket_update_contract:
  "MockWebsocketStatus_update items idx None None = (Some TypeError, items) \<and>
   (items idx = None \<and> (status \<noteq> None \<or> topics \<noteq> None) \<longrightarrow>
      MockWebsocketStatus_update items idx status topics =
        (None, items(idx \<mapsto>
           \<lparr>ws_status = (case status of Some s \<Rightarrow> s | None \<Rightarrow> ''disconnected''),
            ws_topics = (case topics of Some t \<Rightarrow> t | None \<Rightarrow> 0)\<rparr>))) \<and>
   (items 0 = None \<longrightarrow>
      MockWebsocketStatus_update
        (snd (MockWebsocketStatus_update items 0 (Some ''connected'') None)) 0 None (Some 5) =
        (None, items(0 \<mapsto> \<lparr>ws_status = ''connected'', ws_topics = 5\<rparr>)))"
  by (auto simp add: MockWebsocketStatus_update_def split: option.splits)

theorem websocket_update_contract_witness:
  "MockWebsocketStatus_update Map.empty 0 None None = (Some TypeError, Map.empty) \<and>
   MockWebsocketStatus_update Map.empty 0 (Some ''connected'') None =
     (None, [0 \<mapsto> \<lparr>ws_status = ''connected'', ws_topics = 0\<rparr>]) \<and>
   MockWebsocketStatus_update
     (snd (MockWebsocketStatus_update Map.empty 0 (Some ''connected'') None)) 0 None (Some 5) =
     (None, [0 \<mapsto> \<lparr>ws_status = ''connected'', ws_topics = 5\<rparr>])"
proof -
  note t = websocket_update_contract [of Map.empty 0 "Some ''connected''" None]
  have a: "MockWebsocketStatus_update Map.empty 0 None None = (Some TypeError, Map.empty)"
    using t by blast
  have b: "MockWebsocketStatus_update Map.empty 0 (Some ''connected'') None =
      (None, [0 \<mapsto> \<lparr>ws_status = ''connected'', ws_topics = 0\<rparr>])"
    using t [THEN conjunct2, THEN conjunct1] by simp
  have c: "MockWebsocketStatus_update
      (snd (MockWebsocketStatus_update Map.empty 0 (Some ''connected'') None)) 0 None (Some 5) =
      (None, [0 \<mapsto> \<lparr>ws_status = ''connected'', ws_topics = 5\<rparr>])"
    using t [THEN conjunct2, THEN conjunct2] by simp
  show ?thesis
    using a b c by blast
qed

end
